theory Spec2Isabelle
  imports Main "HOL-Library.Word" "HOL-Library.Char_ord" "HOL-Library.List_Lexorder"
begin

unbundle bit_operations_syntax

section \<open>Documents and their metadata\<close>

text \<open>
  A langchain \<open>Document\<close> has a text (\<open>page_content\<close>) and a metadata dictionary.
  A Python dictionary keeps its keys in insertion order and holds each key once, so the
  metadata is an association list; \<open>is_dict\<close> says that no key occurs twice.
  Strings are lists of 8-bit characters, compared as Python compares strings: code point
  by code point, a proper prefix being smaller.  Metadata values are the scalars that
  are serialised without floating point: strings, integers, booleans and \<open>None\<close>.
\<close>

datatype scalar = SStr string | SInt int | SBool bool | SNone

type_synonym metadata = "(string \<times> scalar) list"

record document =
  page_content :: string
  metadata :: metadata

definition is_dict :: "metadata \<Rightarrow> bool" where
  "is_dict md = distinct (map fst md)"

text \<open>\<open>d[k] = v\<close> on a dictionary: an existing key keeps its place, a new key goes last.\<close>

fun dict_set :: "'k \<Rightarrow> 'v \<Rightarrow> ('k \<times> 'v) list \<Rightarrow> ('k \<times> 'v) list" where
  "dict_set k v [] = [(k, v)]"
| "dict_set k v ((k', v') # rest) =
     (if k' = k then (k, v) # rest else (k', v') # dict_set k v rest)"

section \<open>Python string helpers\<close>

text \<open>\<open>sep.join(parts)\<close>.\<close>

fun str_join :: "string \<Rightarrow> string list \<Rightarrow> string" where
  "str_join sep [] = []"
| "str_join sep [x] = x"
| "str_join sep (x # y # ys) = x @ sep @ str_join sep (y # ys)"

definition digit_char :: "nat \<Rightarrow> char" where
  "digit_char n = ''0123456789abcdef'' ! (n mod 16)"

fun dec_nat :: "nat \<Rightarrow> string" where
  "dec_nat n = (if n < 10 then [digit_char n] else dec_nat (n div 10) @ [digit_char (n mod 10)])"

declare dec_nat.simps [simp del]

text \<open>\<open>str(i)\<close> of an integer, which is also its JSON form.\<close>

definition dec_int :: "int \<Rightarrow> string" where
  "dec_int i = (if i < 0 then CHR ''-'' # dec_nat (nat (- i)) else dec_nat (nat i))"

text \<open>What an f-string inserts for a value: \<open>str(v)\<close>.\<close>

fun py_str :: "scalar \<Rightarrow> string" where
  "py_str (SStr s) = s"
| "py_str (SInt i) = dec_int i"
| "py_str (SBool b) = (if b then ''True'' else ''False'')"
| "py_str SNone = ''None''"

section \<open>\<open>json.dumps(metadata, sort_keys=True)\<close>\<close>

text \<open>
  The standard encoder with its defaults (\<open>ensure_ascii=True\<close>, separators \<open>", "\<close> and
  \<open>": "\<close>): a string is quoted, with \<open>"\<close>, the backslash and the five short control
  escapes written with a backslash and every other character outside \<open>' '..'~'\<close> as
  \<open>\u00XX\<close>; with \<open>sort_keys\<close> the items are sorted by key.
\<close>

definition json_escape_char :: "char \<Rightarrow> string" where
  "json_escape_char c =
     (if c = CHR 0x5C then [CHR 0x5C, CHR 0x5C]
      else if c = CHR 0x22 then [CHR 0x5C, CHR 0x22]
      else if c = CHR 0x08 then [CHR 0x5C, CHR ''b'']
      else if c = CHR 0x0C then [CHR 0x5C, CHR ''f'']
      else if c = CHR 0x0A then [CHR 0x5C, CHR ''n'']
      else if c = CHR 0x0D then [CHR 0x5C, CHR ''r'']
      else if c = CHR 0x09 then [CHR 0x5C, CHR ''t'']
      else if (of_char c :: nat) < 0x20 \<or> (of_char c :: nat) > 0x7E
        then [CHR 0x5C, CHR ''u'', CHR ''0'', CHR ''0'',
              digit_char ((of_char c :: nat) div 16), digit_char (of_char c :: nat)]
      else [c])"

definition json_string :: "string \<Rightarrow> string" where
  "json_string s = [CHR 0x22] @ concat (map json_escape_char s) @ [CHR 0x22]"

fun json_scalar :: "scalar \<Rightarrow> string" where
  "json_scalar (SStr s) = json_string s"
| "json_scalar (SInt i) = dec_int i"
| "json_scalar (SBool b) = (if b then ''true'' else ''false'')"
| "json_scalar SNone = ''null''"

definition json_item :: "string \<times> scalar \<Rightarrow> string" where
  "json_item kv = json_string (fst kv) @ '': '' @ json_scalar (snd kv)"

definition json_dumps_sorted :: "metadata \<Rightarrow> string" where
  "json_dumps_sorted md = ''{'' @ str_join '', '' (map json_item (sort_key fst md)) @ ''}''"

section \<open>SHA-1 (\<open>hashlib.sha1(...).hexdigest()\<close>)\<close>

type_synonym byte = "8 word"
type_synonym word32 = "32 word"

text \<open>\<open>str.encode()\<close> on the ASCII output of the JSON encoder: one byte per character.\<close>

definition encode :: "string \<Rightarrow> byte list" where
  "encode s = map (\<lambda>c. word_of_nat (of_char c)) s"

definition be_bytes :: "nat \<Rightarrow> nat \<Rightarrow> byte list" where
  "be_bytes n v = map (\<lambda>i. word_of_nat (v div 256 ^ (n - 1 - i))) [0..<n]"

definition sha1_pad :: "byte list \<Rightarrow> byte list" where
  "sha1_pad m =
     m @ [0x80] @ replicate ((119 - length m mod 64) mod 64) 0 @ be_bytes 8 (8 * length m)"

fun be_word :: "byte list \<Rightarrow> word32" where
  "be_word [] = 0"
| "be_word (b # bs) = push_bit (8 * length bs) (ucast b) OR be_word bs"

fun chunks_of :: "nat \<Rightarrow> 'a list \<Rightarrow> 'a list list" where
  "chunks_of n [] = []"
| "chunks_of n xs = (if n = 0 then [xs] else take n xs # chunks_of n (drop n xs))"

fun sha1_schedule :: "nat \<Rightarrow> word32 list \<Rightarrow> word32 list" where
  "sha1_schedule 0 w = w"
| "sha1_schedule (Suc n) w =
     sha1_schedule n (w @ [word_rotl 1 (w ! (length w - 3) XOR w ! (length w - 8)
                                       XOR w ! (length w - 14) XOR w ! (length w - 16))])"

definition sha1_f :: "nat \<Rightarrow> word32 \<Rightarrow> word32 \<Rightarrow> word32 \<Rightarrow> word32" where
  "sha1_f t b c d =
     (if t < 20 then (b AND c) OR (NOT b AND d)
      else if t < 40 then b XOR c XOR d
      else if t < 60 then (b AND c) OR (b AND d) OR (c AND d)
      else b XOR c XOR d)"

definition sha1_k :: "nat \<Rightarrow> word32" where
  "sha1_k t = (if t < 20 then 0x5A827999 else if t < 40 then 0x6ED9EBA1
               else if t < 60 then 0x8F1BBCDC else 0xCA62C1D6)"

type_synonym sha1_state = "word32 \<times> word32 \<times> word32 \<times> word32 \<times> word32"

fun sha1_round :: "sha1_state \<Rightarrow> nat \<times> word32 \<Rightarrow> sha1_state" where
  "sha1_round (a, b, c, d, e) (t, wt) =
     (word_rotl 5 a + sha1_f t b c d + e + sha1_k t + wt, a, word_rotl 30 b, c, d)"

fun sha1_block :: "sha1_state \<Rightarrow> byte list \<Rightarrow> sha1_state" where
  "sha1_block (h0, h1, h2, h3, h4) blk =
     (let w = sha1_schedule 64 (map be_word (chunks_of 4 blk));
          (a, b, c, d, e) = foldl sha1_round (h0, h1, h2, h3, h4) (zip [0..<80] w)
      in (h0 + a, h1 + b, h2 + c, h3 + d, h4 + e))"

definition sha1_init :: sha1_state where
  "sha1_init = (0x67452301, 0xEFCDAB89, 0x98BADCFE, 0x10325476, 0xC3D2E1F0)"

definition sha1 :: "byte list \<Rightarrow> sha1_state" where
  "sha1 m = foldl sha1_block sha1_init (chunks_of 64 (sha1_pad m))"

definition hex32 :: "word32 \<Rightarrow> string" where
  "hex32 w = map (\<lambda>i. digit_char (unat (drop_bit (4 * (7 - i)) w))) [0..<8]"

fun hexdigest :: "sha1_state \<Rightarrow> string" where
  "hexdigest (h0, h1, h2, h3, h4) = hex32 h0 @ hex32 h1 @ hex32 h2 @ hex32 h3 @ hex32 h4"

section \<open>Content identity\<close>

text \<open>
  \<^verbatim>\<open>def stable_hash(doc): return hashlib.sha1(json.dumps(doc.metadata, sort_keys=True).encode()).hexdigest()\<close>
\<close>

definition stable_hash :: "document \<Rightarrow> string" where
  "stable_hash doc = hexdigest (sha1 (encode (json_dumps_sorted (metadata doc))))"

definition is_hex_digit :: "char \<Rightarrow> bool" where
  "is_hex_digit c = (c \<in> set ''0123456789abcdef'')"

section \<open>Errors\<close>

text \<open>
  The exceptions of the program as values.  \<open>RuntimeError\<close> carries its message.
  \<open>NonStringSource\<close> marks the edge of the model: the indexer sorts and joins the
  \<open>source\<close> values, which the document loader produces as file path strings; a
  \<open>source\<close> of another type is not followed further.
\<close>

datatype error =
    RuntimeError string
  | KeyError string
  | AssertionError
  | NonStringSource
  | ProviderError string

section \<open>Retriever configuration (\<open>get_retriever\<close>)\<close>

datatype RetrieverSearchType = Similarity | SimilarityScoreThreshold | MMR

text \<open>
  The values of \<open>search_kwargs\<close>: \<open>k\<close> and \<open>fetch_k\<close> are integers, \<open>score_threshold\<close>
  and \<open>lambda_mult\<close> are floats, which the function only passes on; their type is left
  open.
\<close>

datatype 'f kwarg = KInt int | KFloat 'f

record 'f retriever =
  search_type :: RetrieverSearchType
  search_kwargs :: "(string \<times> 'f kwarg) list"

text \<open>The calls made on the vector store object, in order.\<close>

datatype 'f vs_call = AsRetriever RetrieverSearchType "(string \<times> 'f kwarg) list"

text \<open>
  \<^verbatim>\<open>
  kwargs = {"search_type": search_type}
  search_kwargs = {}
  if k is not None: search_kwargs["k"] = k
  if search_type == "similarity_score_threshold":
      assert score_threshold is not None
      search_kwargs["score_threshold"] = score_threshold
  elif search_type == "mmr":
      if fetch_k is not None: search_kwargs["fetch_k"] = fetch_k
      if lambda_mult is not None: search_kwargs["lambda_mult"] = lambda_mult
  kwargs["search_kwargs"] = search_kwargs
  return vectorstore.as_retriever(**kwargs)
  \<close>
  The assertion is live (the interpreter does not run with \<open>-O\<close>).  The vector store is
  represented by the list of calls made on it.
\<close>

definition set_if_given :: "string \<Rightarrow> 'v option \<Rightarrow> (string \<times> 'v) list \<Rightarrow> (string \<times> 'v) list" where
  "set_if_given key v kw = (case v of None \<Rightarrow> kw | Some x \<Rightarrow> dict_set key x kw)"

definition get_retriever ::
  "int option \<Rightarrow> RetrieverSearchType \<Rightarrow> 'f option \<Rightarrow> int option \<Rightarrow> 'f option
     \<Rightarrow> 'f vs_call list \<Rightarrow> (error + 'f retriever) \<times> 'f vs_call list" where
  "get_retriever k st score_threshold fetch_k lambda_mult vectorstore =
     (let kw0 = set_if_given ''k'' (map_option KInt k) [] in
      case (case st of
              SimilarityScoreThreshold \<Rightarrow>
                (case score_threshold of
                   None \<Rightarrow> Inl AssertionError
                 | Some t \<Rightarrow> Inr (dict_set ''score_threshold'' (KFloat t) kw0))
            | MMR \<Rightarrow>
                Inr (set_if_given ''lambda_mult'' (map_option KFloat lambda_mult)
                      (set_if_given ''fetch_k'' (map_option KInt fetch_k) kw0))
            | Similarity \<Rightarrow> Inr kw0) of
        Inl e \<Rightarrow> (Inl e, vectorstore)
      | Inr kw \<Rightarrow>
          (Inr \<lparr>search_type = st, search_kwargs = kw\<rparr>, vectorstore @ [AsRetriever st kw]))"

section \<open>Answer composition (\<open>format_docs\<close>, \<open>get_rag_chain\<close>)\<close>

definition newline :: string where
  "newline = [CHR 0x0A]"

text \<open>
  \<^verbatim>\<open>f"Content: {doc.page_content}\nSource: {doc.metadata['source']}"\<close>, the expression
  of \<open>format_doc\<close> and of the generator in \<open>format_docs\<close>; a missing key raises.
\<close>

definition format_doc :: "document \<Rightarrow> error + string" where
  "format_doc doc =
     (case map_of (metadata doc) ''source'' of
        None \<Rightarrow> Inl (KeyError ''source'')
      | Some v \<Rightarrow> Inr (''Content: '' @ page_content doc @ newline @ ''Source: '' @ py_str v))"

text \<open>The generator is consumed in order; the first exception ends it.\<close>

fun format_each :: "document list \<Rightarrow> error + string list" where
  "format_each [] = Inr []"
| "format_each (d # ds) =
     (case format_doc d of
        Inl e \<Rightarrow> Inl e
      | Inr s \<Rightarrow> (case format_each ds of Inl e \<Rightarrow> Inl e | Inr ss \<Rightarrow> Inr (s # ss)))"

definition format_docs :: "document list \<Rightarrow> error + string" where
  "format_docs docs =
     (case format_each docs of
        Inl e \<Rightarrow> Inl e
      | Inr ss \<Rightarrow> Inr (str_join (newline @ newline) ss))"

text \<open>
  The context block in the words of the specification: each entry is
  \<open>Content: <text>\<close>, a line break, \<open>Source: <source>\<close>; consecutive entries are separated
  by one blank line; the order is that of the sequence.
\<close>

definition spec_entry :: "string \<times> scalar \<Rightarrow> string" where
  "spec_entry e = ''Content: '' @ fst e @ [CHR 0x0A] @ ''Source: '' @ py_str (snd e)"

fun spec_context_block :: "(string \<times> scalar) list \<Rightarrow> string" where
  "spec_context_block [] = []"
| "spec_context_block [e] = spec_entry e"
| "spec_context_block (e # e' # es) =
     spec_entry e @ [CHR 0x0A, CHR 0x0A] @ spec_context_block (e' # es)"

text \<open>\<open>ChatPromptTemplate.from_template(template)\<close> filled with the two values.\<close>

definition prompt_text :: "string \<Rightarrow> string \<Rightarrow> string" where
  "prompt_text q ctx =
     ''You are an assistant for question-answering tasks on Formula One (F1) documentation.''
     @ newline
     @ ''Given the following extracted parts of a long document and a question, create a final answer with used references (named ''
     @ [CHR 0x22] @ ''sources'' @ [CHR 0x22] @ '').'' @ newline
     @ ''Keep the answer concise. If you don''
     @ [CHR 0x27] @ ''t know the answer, just say that you don''
     @ [CHR 0x27] @ ''t know. Don'' @ [CHR 0x27] @ ''t try to make up an answer.'' @ newline
     @ ''ALWAYS return used sources in your answer.'' @ newline
     @ newline
     @ ''QUESTION: '' @ q @ newline
     @ ''========='' @ newline
     @ ctx @ newline
     @ ''========='' @ newline
     @ ''FINAL ANSWER: ''"

record rag_answer =
  source_documents :: "document list"
  question :: string
  answer :: string

text \<open>
  The chain: the retriever and a pass-through of the question run side by side; then
  \<open>answer\<close> is assigned from the sub-chain that formats the documents, fills the prompt,
  calls the chat model and takes the text of its reply.  The retriever and the chat
  model are the two services; either may fail, and the failure is passed on.
\<close>

definition get_rag_chain ::
  "(string \<Rightarrow> error + document list) \<Rightarrow> (string \<Rightarrow> error + string) \<Rightarrow> string
     \<Rightarrow> error + rag_answer" where
  "get_rag_chain retriever chat_model q =
     (case retriever q of
        Inl e \<Rightarrow> Inl e
      | Inr docs \<Rightarrow>
          (case format_docs docs of
             Inl e \<Rightarrow> Inl e
           | Inr ctx \<Rightarrow>
               (case chat_model (prompt_text q ctx) of
                  Inl e \<Rightarrow> Inl e
                | Inr text \<Rightarrow>
                    Inr \<lparr>source_documents = docs, question = q, answer = text\<rparr>)))"

section \<open>The vector index\<close>

text \<open>
  The Chroma collection is used through four operations, taken as the specification
  gives them for the vector index: listing ids and metadata, deleting by id (an absent
  id is not an error), and adding documents under given ids, which inserts a new id
  and overwrites an existing one.  An entry holds the document (text and metadata) and
  its embedding; embeddings come from the embeddings model, a parameter.  A collection
  is the list of its entries under their ids, in insertion order.
\<close>

type_synonym 'e entry = "document \<times> 'e"

type_synonym 'e collection = "(string \<times> 'e entry) list"

definition upsert :: "(string \<times> 'e entry) list \<Rightarrow> 'e collection \<Rightarrow> 'e collection" where
  "upsert batch coll = foldl (\<lambda>c ie. dict_set (fst ie) (snd ie) c) coll batch"

definition delete_ids :: "string list \<Rightarrow> 'e collection \<Rightarrow> 'e collection" where
  "delete_ids ids coll = filter (\<lambda>ie. fst ie \<notin> set ids) coll"

definition entry_ids :: "'e collection \<Rightarrow> string list" where
  "entry_ids coll = map fst coll"

definition entry_metadatas :: "'e collection \<Rightarrow> metadata list" where
  "entry_metadatas coll = map (\<lambda>ie. metadata (fst (snd ie))) coll"

text \<open>
  The calls the indexer makes on its collaborators, in order, and the persisted state:
  \<open>persisted\<close> is \<open>None\<close> while the database directory does not exist, and otherwise
  maps the names of the collections in it to their entries.  Writes go to the
  persisted collection at once; \<open>persist()\<close> is recorded as a call.
\<close>

datatype event =
    ListCollections
  | OpenCollection
  | GetMetadatas
  | LoadDocuments
  | Delete "string list"
  | SplitDocuments
  | AddDocuments "string list"
  | Persist

record 'e world =
  persisted :: "(string \<rightharpoonup> 'e collection) option"
  calls :: "event list"

text \<open>\<open>assistant.settings\<close> is not part of the sources; its two values are parameters.\<close>

record settings =
  docs_db_directory :: string
  docs_db_collection :: string

definition collections :: "'e world \<Rightarrow> (string \<rightharpoonup> 'e collection)" where
  "collections w = (case persisted w of None \<Rightarrow> Map.empty | Some m \<Rightarrow> m)"

definition the_collection :: "settings \<Rightarrow> 'e world \<Rightarrow> 'e collection" where
  "the_collection S w =
     (case collections w (docs_db_collection S) of None \<Rightarrow> [] | Some c \<Rightarrow> c)"

definition log_call :: "event \<Rightarrow> 'e world \<Rightarrow> 'e world" where
  "log_call ev w = w\<lparr>calls := calls w @ [ev]\<rparr>"

definition set_collection :: "settings \<Rightarrow> 'e collection \<Rightarrow> 'e world \<Rightarrow> 'e world" where
  "set_collection S c w = w\<lparr>persisted := Some ((collections w)(docs_db_collection S \<mapsto> c))\<rparr>"

text \<open>
  \<open>get_chromadb\<close>: the \<open>Chroma\<close> object on the persist directory creates the directory
  and the collection when they are missing and opens them otherwise.
\<close>

definition get_chromadb :: "settings \<Rightarrow> 'e world \<Rightarrow> 'e world" where
  "get_chromadb S w = log_call OpenCollection (set_collection S (the_collection S w) w)"

section \<open>Chunking\<close>

text \<open>
  \<open>split_documents\<close> of the text splitter, with \<open>add_start_index=True\<close>: every document
  is split on its own, each chunk gets a copy of the parent's metadata with
  \<open>start_index\<close> set, and the chunks of all documents follow each other in order.  How a
  text is cut (chunk texts and their offsets) is the parameter \<open>split_text\<close>.
\<close>

definition split_document :: "(string \<Rightarrow> (string \<times> int) list) \<Rightarrow> document \<Rightarrow> document list" where
  "split_document split_text doc =
     map (\<lambda>ci. \<lparr>page_content = fst ci,
               metadata = dict_set ''start_index'' (SInt (snd ci)) (metadata doc)\<rparr>)
         (split_text (page_content doc))"

definition split_documents :: "(string \<Rightarrow> (string \<times> int) list) \<Rightarrow> document list \<Rightarrow> document list" where
  "split_documents split_text docs = concat (map (split_document split_text) docs)"

section \<open>The indexer (\<open>create_db\<close>)\<close>

datatype OnMatchAction = IGNORE | REPLACE | FAIL

text \<open>\<open>metadata["source"]\<close>.\<close>

definition source_of :: "metadata \<Rightarrow> error + string" where
  "source_of md =
     (case map_of md ''source'' of
        None \<Rightarrow> Inl (KeyError ''source'')
      | Some (SStr s) \<Rightarrow> Inr s
      | Some _ \<Rightarrow> Inl NonStringSource)"

text \<open>A comprehension over \<open>metadata["source"]\<close>: the values in order, or the first error.\<close>

fun sources_of :: "metadata list \<Rightarrow> error + string list" where
  "sources_of [] = Inr []"
| "sources_of (md # mds) =
     (case source_of md of
        Inl e \<Rightarrow> Inl e
      | Inr s \<Rightarrow> (case sources_of mds of Inl e \<Rightarrow> Inl e | Inr ss \<Rightarrow> Inr (s # ss)))"

definition quote :: string where
  "quote = [CHR 0x27]"

definition exists_msg :: "settings \<Rightarrow> string" where
  "exists_msg S =
     ''Collection '' @ quote @ docs_db_collection S @ quote
     @ '' already exists in the vectorstore at '' @ quote @ docs_db_directory S @ quote
     @ ''. Set '' @ quote @ ''--exist-ok'' @ quote @ '' for appending to existing collections.''"

definition collision_msg :: "string list \<Rightarrow> string" where
  "collision_msg srcs =
     ''Some of the given documents are indexed already. Set '' @ quote @ ''--on-match ignore''
     @ quote @ '' to ignore the already indexed documents or '' @ quote
     @ ''--on-match replace'' @ quote
     @ '' to index them again. List of the already indexed documents: '' @ quote
     @ str_join (quote @ '', '' @ quote) srcs @ quote @ ''.''"

text \<open>
  Lines 53 to 64:
  \<^verbatim>\<open>
  if not exist_ok and settings.docs_db_directory.exists():
      ...
      collection_names = [collection.name for collection in client.list_collections()]
      if settings.docs_db_collection in collection_names:
          raise RuntimeError(...)
  \<close>
\<close>

definition check_exist_ok :: "settings \<Rightarrow> bool \<Rightarrow> 'e world \<Rightarrow> error option \<times> 'e world" where
  "check_exist_ok S exist_ok w =
     (case persisted w of
        None \<Rightarrow> (None, w)
      | Some m \<Rightarrow>
          if exist_ok then (None, w)
          else if m (docs_db_collection S) \<noteq> None
            then (Some (RuntimeError (exists_msg S)), log_call ListCollections w)
            else (None, log_call ListCollections w))"

text \<open>
  Lines 70 to 75:
  \<^verbatim>\<open>sorted(set(metadata["source"] for metadata in docs_vectorstore.get(...)["metadatas"]))\<close>
\<close>

definition indexed_doc_filepaths :: "'e collection \<Rightarrow> error + string list" where
  "indexed_doc_filepaths coll =
     (case sources_of (entry_metadatas coll) of
        Inl e \<Rightarrow> Inl e
      | Inr ss \<Rightarrow> Inr (sort (remdups ss)))"

text \<open>
  Lines 88 to 90:
  \<^verbatim>\<open>[doc for doc in docs if doc.metadata["source"] not in indexed_doc_filepaths]\<close>
\<close>

fun not_indexed :: "string list \<Rightarrow> document list \<Rightarrow> error + document list" where
  "not_indexed indexed [] = Inr []"
| "not_indexed indexed (doc # docs) =
     (case source_of (metadata doc) of
        Inl e \<Rightarrow> Inl e
      | Inr s \<Rightarrow>
          (case not_indexed indexed docs of
             Inl e \<Rightarrow> Inl e
           | Inr rest \<Rightarrow> Inr (if s \<notin> set indexed then doc # rest else rest)))"

text \<open>
  Lines 93 to 97:
  \<^verbatim>\<open>
  [id_ for id_, metadata in zip(response["ids"], response["metadatas"])
   if metadata["source"] in {doc.metadata["source"] for doc in docs}]
  \<close>
  The set of the documents' sources is built anew for every entry, after the entry's
  own source has been read.
\<close>

fun ids_to_replace :: "document list \<Rightarrow> (string \<times> metadata) list \<Rightarrow> error + string list" where
  "ids_to_replace docs [] = Inr []"
| "ids_to_replace docs ((i, md) # rest) =
     (case source_of md of
        Inl e \<Rightarrow> Inl e
      | Inr s \<Rightarrow>
          (case sources_of (map metadata docs) of
             Inl e \<Rightarrow> Inl e
           | Inr ss \<Rightarrow>
               (case ids_to_replace docs rest of
                  Inl e \<Rightarrow> Inl e
                | Inr ids \<Rightarrow> Inr (if s \<in> set ss then i # ids else ids))))"

text \<open>Lines 87 to 108: the three policies.\<close>

definition on_match_step ::
  "settings \<Rightarrow> OnMatchAction \<Rightarrow> string list \<Rightarrow> document list \<Rightarrow> 'e world
     \<Rightarrow> (error + document list) \<times> 'e world" where
  "on_match_step S on_match indexed docs w =
     (case on_match of
        IGNORE \<Rightarrow> (not_indexed indexed docs, w)
      | REPLACE \<Rightarrow>
          (let w1 = log_call GetMetadatas w;
               coll = the_collection S w1
           in case ids_to_replace docs (zip (entry_ids coll) (entry_metadatas coll)) of
                Inl e \<Rightarrow> (Inl e, w1)
              | Inr ids \<Rightarrow>
                  (Inr docs, log_call (Delete ids) (set_collection S (delete_ids ids coll) w1)))
      | FAIL \<Rightarrow>
          (case sources_of (map metadata docs) of
             Inl e \<Rightarrow> (Inl e, w)
           | Inr ss \<Rightarrow>
               (let doc_filepaths_match = filter (\<lambda>s. s \<in> set indexed) ss
                in if doc_filepaths_match \<noteq> []
                   then (Inl (RuntimeError (collision_msg (sort (remdups doc_filepaths_match)))), w)
                   else (Inr docs, w))))"

text \<open>
  Lines 53 to 108: everything up to the batch that is left after the policy.  \<open>docs\<close> is
  what \<open>loader.load()\<close> returns for the directory.
\<close>

definition prepare_batch ::
  "settings \<Rightarrow> document list \<Rightarrow> bool \<Rightarrow> OnMatchAction \<Rightarrow> 'e world
     \<Rightarrow> (error + document list) \<times> 'e world" where
  "prepare_batch S docs exist_ok on_match w =
     (case check_exist_ok S exist_ok w of
        (Some e, w1) \<Rightarrow> (Inl e, w1)
      | (None, w1) \<Rightarrow>
          (let w2 = get_chromadb S w1;
               w3 = log_call GetMetadatas w2
           in case indexed_doc_filepaths (the_collection S w3) of
                Inl e \<Rightarrow> (Inl e, w3)
              | Inr indexed \<Rightarrow> on_match_step S on_match indexed docs (log_call LoadDocuments w3)))"

text \<open>
  Lines 110 to 118:
  \<^verbatim>\<open>
  if docs:
      splits = text_splitter.split_documents(docs)
      split_ids = list(map(stable_hash, splits))
      docs_vectorstore.add_documents(splits, ids=split_ids)
      docs_vectorstore.persist()
  \<close>
\<close>

definition new_entries ::
  "(string \<Rightarrow> 'e) \<Rightarrow> document list \<Rightarrow> (string \<times> 'e entry) list" where
  "new_entries embedder splits =
     zip (map stable_hash splits) (map (\<lambda>d. (d, embedder (page_content d))) splits)"

definition index_batch ::
  "settings \<Rightarrow> (string \<Rightarrow> 'e) \<Rightarrow> (string \<Rightarrow> (string \<times> int) list) \<Rightarrow> document list
     \<Rightarrow> 'e world \<Rightarrow> error option \<times> 'e world" where
  "index_batch S embedder split_text docs w =
     (if docs \<noteq> [] then
        (let splits = split_documents split_text docs;
             split_ids = map stable_hash splits;
             w1 = log_call SplitDocuments w;
             w2 = log_call (AddDocuments split_ids)
                    (set_collection S (upsert (new_entries embedder splits) (the_collection S w1)) w1)
         in (None, log_call Persist w2))
      else (None, w))"

definition create_db ::
  "settings \<Rightarrow> (string \<Rightarrow> 'e) \<Rightarrow> (string \<Rightarrow> (string \<times> int) list) \<Rightarrow> document list
     \<Rightarrow> bool \<Rightarrow> OnMatchAction \<Rightarrow> 'e world \<Rightarrow> error option \<times> 'e world" where
  "create_db S embedder split_text docs exist_ok on_match w =
     (case prepare_batch S docs exist_ok on_match w of
        (Inl e, w1) \<Rightarrow> (Some e, w1)
      | (Inr batch, w1) \<Rightarrow> index_batch S embedder split_text batch w1)"

subsection \<open>Vocabulary for the properties of the indexer\<close>

definition doc_source :: "document \<Rightarrow> string" where
  "doc_source d = (case source_of (metadata d) of Inr s \<Rightarrow> s | Inl e \<Rightarrow> [])"

definition has_source :: "document \<Rightarrow> bool" where
  "has_source d = (case source_of (metadata d) of Inr s \<Rightarrow> True | Inl e \<Rightarrow> False)"

definition entry_sources :: "'e collection \<Rightarrow> string set" where
  "entry_sources coll = set (map (\<lambda>ie. doc_source (fst (snd ie))) coll)"

definition wf_collection :: "'e collection \<Rightarrow> bool" where
  "wf_collection coll = list_all (\<lambda>ie. has_source (fst (snd ie))) coll"

definition is_index_work :: "event \<Rightarrow> bool" where
  "is_index_work ev =
     (case ev of SplitDocuments \<Rightarrow> True | AddDocuments ids \<Rightarrow> True | Persist \<Rightarrow> True
      | _ \<Rightarrow> False)"









section \<open>Properties of the content identity\<close>

lemma digit_char_hex: "is_hex_digit (digit_char n)"
proof -
  have "n mod 16 < length ''0123456789abcdef''" by simp
  then have "''0123456789abcdef'' ! (n mod 16) \<in> set ''0123456789abcdef''"
    by (rule nth_mem)
  then show ?thesis by (simp only: is_hex_digit_def digit_char_def)
qed

lemma length_hex32: "length (hex32 w) = 8"
  by (simp add: hex32_def)

lemma hex32_hex: "c \<in> set (hex32 w) \<Longrightarrow> is_hex_digit c"
  by (auto simp: hex32_def digit_char_hex)

lemma length_hexdigest: "length (hexdigest st) = 40"
  by (cases st) (simp add: length_hex32)

lemma hexdigest_hex: "c \<in> set (hexdigest st) \<Longrightarrow> is_hex_digit c"
  by (cases st) (auto dest: hex32_hex)

lemma dict_items_eq:
  assumes "is_dict m1" and "is_dict m2" and "map_of m1 = map_of m2"
  shows "set m1 = set m2"
proof -
  have "\<And>kv. kv \<in> set m1 \<longleftrightarrow> map_of m1 (fst kv) = Some (snd kv)"
    using assms(1) by (auto simp: is_dict_def dest: map_of_SomeD)
  moreover have "\<And>kv. kv \<in> set m2 \<longleftrightarrow> map_of m2 (fst kv) = Some (snd kv)"
    using assms(2) by (auto simp: is_dict_def dest: map_of_SomeD)
  ultimately show ?thesis using assms(3) by auto
qed

lemma sorted_items_eq:
  assumes "is_dict m1" and "is_dict m2" and "map_of m1 = map_of m2"
  shows "sort_key fst m1 = sort_key fst m2"
proof (rule map_sorted_distinct_set_unique [where f = fst])
  have s: "set m1 = set m2" using assms by (rule dict_items_eq)
  have "inj_on fst (set m1)" using assms(1) by (simp add: is_dict_def distinct_map)
  then show "inj_on fst (set (sort_key fst m1) \<union> set (sort_key fst m2))"
    using s by simp
  show "sorted (map fst (sort_key fst m1))" by simp
  show "sorted (map fst (sort_key fst m2))" by simp
  show "distinct (map fst (sort_key fst m1))"
    using assms(1) by (simp add: is_dict_def distinct_map)
  show "distinct (map fst (sort_key fst m2))"
    using assms(2) by (simp add: is_dict_def distinct_map)
  show "set (sort_key fst m1) = set (sort_key fst m2)" using s by simp
qed

text \<open>
  Claim C1.  Two documents whose metadata dictionaries hold the same key/value mapping
  get the same identity, whatever their texts and whatever the order in which the keys
  were inserted; the identity is the digest of the key-sorted serialisation of the
  metadata, and it always is a string of 40 lower-case hexadecimal digits.
\<close>

theorem stable_hash_deterministic:
  assumes "is_dict (metadata d1)" and "is_dict (metadata d2)"
    and "map_of (metadata d1) = map_of (metadata d2)"
  shows "stable_hash d1 = stable_hash d2
    \<and> json_dumps_sorted (metadata d1) = json_dumps_sorted (metadata d2)
    \<and> stable_hash d1 = hexdigest (sha1 (encode (json_dumps_sorted (metadata d1))))
    \<and> length (stable_hash d1) = 40
    \<and> (\<forall>c \<in> set (stable_hash d1). is_hex_digit c)"
proof -
  have "sort_key fst (metadata d1) = sort_key fst (metadata d2)"
    using assms by (rule sorted_items_eq)
  then have "json_dumps_sorted (metadata d1) = json_dumps_sorted (metadata d2)"
    by (simp add: json_dumps_sorted_def)
  then show ?thesis
    by (simp add: stable_hash_def length_hexdigest hexdigest_hex)
qed

theorem stable_hash_deterministic_witness:
  "stable_hash \<lparr>page_content = ''first text'',
       metadata = [(''source'', SStr ''doc.html''), (''start_index'', SInt 0)]\<rparr>
   = stable_hash \<lparr>page_content = ''another text'',
       metadata = [(''start_index'', SInt 0), (''source'', SStr ''doc.html'')]\<rparr>
   \<and> length (stable_hash \<lparr>page_content = ''first text'',
       metadata = [(''source'', SStr ''doc.html''), (''start_index'', SInt 0)]\<rparr>) = 40"
proof -
  let ?d1 = "\<lparr>page_content = ''first text'',
       metadata = [(''source'', SStr ''doc.html''), (''start_index'', SInt 0)]\<rparr>"
  let ?d2 = "\<lparr>page_content = ''another text'',
       metadata = [(''start_index'', SInt 0), (''source'', SStr ''doc.html'')]\<rparr>"
  have a: "is_dict (metadata ?d1)" by (simp add: is_dict_def)
  have b: "is_dict (metadata ?d2)" by (simp add: is_dict_def)
  have c: "map_of (metadata ?d1) = map_of (metadata ?d2)" by (auto simp: fun_eq_iff)
  from stable_hash_deterministic [OF a b c] show ?thesis by blast
qed

section \<open>Evaluating SHA-1 and the content identity\<close>

text \<open>
  Digests of concrete messages are computed by rewriting, one stage of the algorithm
  at a time: padding, the sixteen words of the block, the message schedule, four times
  twenty rounds, the final addition and the hexadecimal form.  The first digest is the
  test vector \<open>abc\<close> of the SHA-1 standard; the other two are the identities of the
  chunks with start index 0 of the sources \<open>doc.html\<close> and \<open>b.html\<close>.
\<close>

lemma rotl5: "word_rotl 5 (w :: 32 word) = push_bit 5 w OR drop_bit 27 w"
proof (rule bit_word_eqI)
  fix n assume n: "n < LENGTH(32)"
  show "bit (word_rotl 5 w) n = bit (push_bit 5 w OR drop_bit 27 w) n"
  proof (cases "n < 5")
    case True
    then have "(n + 27) mod 32 = n + 27" by simp
    with True n show ?thesis by (simp add: bit_simps add.commute)
  next
    case False
    then have "(n + 27) mod 32 = n - 5" using n by (simp add: mod_if)
    moreover have "\<not> bit w (27 + n)" using False by (auto dest: bit_imp_le_length)
    ultimately show ?thesis using False n by (simp add: bit_simps add.commute)
  qed
qed

lemma rotl1: "word_rotl 1 (w :: 32 word) = push_bit 1 w OR drop_bit 31 w"
proof (rule bit_word_eqI)
  fix n assume n: "n < LENGTH(32)"
  show "bit (word_rotl 1 w) n = bit (push_bit 1 w OR drop_bit 31 w) n"
  proof (cases "n < 1")
    case True
    then have n0: "n = 0" by simp
    have "bit (word_rotl 1 w) n = bit w 31"
      unfolding n0 bit_word_rotl_iff by simp
    moreover have "bit (push_bit 1 w OR drop_bit 31 w) n = bit w 31"
      unfolding n0 bit_or_iff bit_push_bit_iff bit_drop_bit_eq by simp
    ultimately show ?thesis by simp
  next
    case False
    then have m: "(n + 31) mod 32 = n - 1" using n by (simp add: mod_if)
    have d: "\<not> bit w (31 + n)" using False by (auto dest: bit_imp_le_length)
    have "bit (word_rotl 1 w) n = bit w (n - 1)"
      unfolding bit_word_rotl_iff using n m by simp
    moreover have "bit (push_bit 1 w OR drop_bit 31 w) n = bit w (n - 1)"
      unfolding bit_or_iff bit_push_bit_iff bit_drop_bit_eq using n d False by simp
    ultimately show ?thesis by simp
  qed
qed

lemma rotl30: "word_rotl 30 (w :: 32 word) = push_bit 30 w OR drop_bit 2 w"
proof (rule bit_word_eqI)
  fix n assume n: "n < LENGTH(32)"
  show "bit (word_rotl 30 w) n = bit (push_bit 30 w OR drop_bit 2 w) n"
  proof (cases "n < 30")
    case True
    then have "(n + 2) mod 32 = n + 2" by simp
    with True n show ?thesis by (simp add: bit_simps add.commute)
  next
    case False
    then have "(n + 2) mod 32 = n - 30" using n by (simp add: mod_if)
    moreover have "\<not> bit w (2 + n)" using False by (auto dest: bit_imp_le_length)
    ultimately show ?thesis using False n by (simp add: bit_simps add.commute)
  qed
qed

lemma sha1_schedule_unfold:
  "sha1_schedule n w =
     (if n = 0 then w
      else sha1_schedule (n - 1)
             (w @ [word_rotl 1 (w ! (length w - 3) XOR w ! (length w - 8)
                                XOR w ! (length w - 14) XOR w ! (length w - 16))]))"
  by (cases n) simp_all

lemma rotl1S: "word_rotl (Suc 0) (w :: 32 word) = push_bit 1 w OR drop_bit 31 w"
  using rotl1 [of w] by simp

lemma replicate_unfold:
  "replicate n x = (if n = 0 then [] else x # replicate (n - 1) x)"
  by (cases n) simp_all

lemma sha1_schedule_add: "sha1_schedule (a + b) w = sha1_schedule b (sha1_schedule a w)"
  by (induction a arbitrary: w) simp_all

lemma tv_enc:
  "encode (''abc'') = [0x61, 0x62, 0x63]"
  by (simp add: encode_def)

lemma tv_pad:
  "sha1_pad [0x61, 0x62, 0x63] = [0x61, 0x62, 0x63, 0x80, 0x0, 0x0, 0x0, 0x0, 0x0, 0x0, 0x0, 0x0, 0x0, 0x0, 0x0, 0x0, 0x0, 0x0, 0x0, 0x0, 0x0, 0x0, 0x0, 0x0, 0x0, 0x0, 0x0, 0x0, 0x0, 0x0, 0x0, 0x0, 0x0, 0x0, 0x0, 0x0, 0x0, 0x0, 0x0, 0x0, 0x0, 0x0, 0x0, 0x0, 0x0, 0x0, 0x0, 0x0, 0x0, 0x0, 0x0, 0x0, 0x0, 0x0, 0x0, 0x0, 0x0, 0x0, 0x0, 0x0, 0x0, 0x0, 0x0, 0x18]"
  by (simp add: sha1_pad_def be_bytes_def upt_rec replicate_unfold)

lemma tv_chunks:
  "chunks_of 64 [0x61, 0x62, 0x63, 0x80, 0x0, 0x0, 0x0, 0x0, 0x0, 0x0, 0x0, 0x0, 0x0, 0x0, 0x0, 0x0, 0x0, 0x0, 0x0, 0x0, 0x0, 0x0, 0x0, 0x0, 0x0, 0x0, 0x0, 0x0, 0x0, 0x0, 0x0, 0x0, 0x0, 0x0, 0x0, 0x0, 0x0, 0x0, 0x0, 0x0, 0x0, 0x0, 0x0, 0x0, 0x0, 0x0, 0x0, 0x0, 0x0, 0x0, 0x0, 0x0, 0x0, 0x0, 0x0, 0x0, 0x0, 0x0, 0x0, 0x0, 0x0, 0x0, 0x0, 0x18] = [[0x61, 0x62, 0x63, 0x80, 0x0, 0x0, 0x0, 0x0, 0x0, 0x0, 0x0, 0x0, 0x0, 0x0, 0x0, 0x0, 0x0, 0x0, 0x0, 0x0, 0x0, 0x0, 0x0, 0x0, 0x0, 0x0, 0x0, 0x0, 0x0, 0x0, 0x0, 0x0, 0x0, 0x0, 0x0, 0x0, 0x0, 0x0, 0x0, 0x0, 0x0, 0x0, 0x0, 0x0, 0x0, 0x0, 0x0, 0x0, 0x0, 0x0, 0x0, 0x0, 0x0, 0x0, 0x0, 0x0, 0x0, 0x0, 0x0, 0x0, 0x0, 0x0, 0x0, 0x18]]"
  by simp

lemma tv_blk:
  "map be_word (chunks_of 4 [0x61, 0x62, 0x63, 0x80, 0x0, 0x0, 0x0, 0x0, 0x0, 0x0, 0x0, 0x0, 0x0, 0x0, 0x0, 0x0, 0x0, 0x0, 0x0, 0x0, 0x0, 0x0, 0x0, 0x0, 0x0, 0x0, 0x0, 0x0, 0x0, 0x0, 0x0, 0x0, 0x0, 0x0, 0x0, 0x0, 0x0, 0x0, 0x0, 0x0, 0x0, 0x0, 0x0, 0x0, 0x0, 0x0, 0x0, 0x0, 0x0, 0x0, 0x0, 0x0, 0x0, 0x0, 0x0, 0x0, 0x0, 0x0, 0x0, 0x0, 0x0, 0x0, 0x0, 0x18]) = [0x61626380, 0x0, 0x0, 0x0, 0x0, 0x0, 0x0, 0x0, 0x0, 0x0, 0x0, 0x0, 0x0, 0x0, 0x0, 0x18]"
  by simp

lemma tv_sched0:
  "sha1_schedule 16 [0x61626380, 0x0, 0x0, 0x0, 0x0, 0x0, 0x0, 0x0, 0x0, 0x0, 0x0, 0x0, 0x0, 0x0, 0x0, 0x18] = [0x61626380, 0x0, 0x0, 0x0, 0x0, 0x0, 0x0, 0x0, 0x0, 0x0, 0x0, 0x0, 0x0, 0x0, 0x0, 0x18, 0xC2C4C700, 0x0, 0x30, 0x85898E01, 0x0, 0x60, 0xB131C03, 0x30, 0x85898EC1, 0x16263806, 0x0, 0x180, 0x2C4C700C, 0xF0, 0x93AFB507, 0x5898E048]"
  by (simp add: sha1_schedule_unfold rotl1 rotl1S)

lemma tv_sched1:
  "sha1_schedule 16 [0x61626380, 0x0, 0x0, 0x0, 0x0, 0x0, 0x0, 0x0, 0x0, 0x0, 0x0, 0x0, 0x0, 0x0, 0x0, 0x18, 0xC2C4C700, 0x0, 0x30, 0x85898E01, 0x0, 0x60, 0xB131C03, 0x30, 0x85898EC1, 0x16263806, 0x0, 0x180, 0x2C4C700C, 0xF0, 0x93AFB507, 0x5898E048] = [0x61626380, 0x0, 0x0, 0x0, 0x0, 0x0, 0x0, 0x0, 0x0, 0x0, 0x0, 0x0, 0x0, 0x0, 0x0, 0x18, 0xC2C4C700, 0x0, 0x30, 0x85898E01, 0x0, 0x60, 0xB131C03, 0x30, 0x85898EC1, 0x16263806, 0x0, 0x180, 0x2C4C700C, 0xF0, 0x93AFB507, 0x5898E048, 0x8E9A9202, 0x600, 0xB131C0F0, 0x16263BC6, 0x4EBED41E, 0x626380A1, 0x16263806, 0x18C0, 0xD2E138C4, 0xF00, 0x3AFB5079, 0x898E04E5, 0xE2BA3C2B, 0x60C0, 0x53A37CD, 0x74458547]"
  by (simp add: sha1_schedule_unfold rotl1 rotl1S)

lemma tv_sched2:
  "sha1_schedule 16 [0x61626380, 0x0, 0x0, 0x0, 0x0, 0x0, 0x0, 0x0, 0x0, 0x0, 0x0, 0x0, 0x0, 0x0, 0x0, 0x18, 0xC2C4C700, 0x0, 0x30, 0x85898E01, 0x0, 0x60, 0xB131C03, 0x30, 0x85898EC1, 0x16263806, 0x0, 0x180, 0x2C4C700C, 0xF0, 0x93AFB507, 0x5898E048, 0x8E9A9202, 0x600, 0xB131C0F0, 0x16263BC6, 0x4EBED41E, 0x626380A1, 0x16263806, 0x18C0, 0xD2E138C4, 0xF00, 0x3AFB5079, 0x898E04E5, 0xE2BA3C2B, 0x60C0, 0x53A37CD, 0x74458547] = [0x61626380, 0x0, 0x0, 0x0, 0x0, 0x0, 0x0, 0x0, 0x0, 0x0, 0x0, 0x0, 0x0, 0x0, 0x0, 0x18, 0xC2C4C700, 0x0, 0x30, 0x85898E01, 0x0, 0x60, 0xB131C03, 0x30, 0x85898EC1, 0x16263806, 0x0, 0x180, 0x2C4C700C, 0xF0, 0x93AFB507, 0x5898E048, 0x8E9A9202, 0x600, 0xB131C0F0, 0x16263BC6, 0x4EBED41E, 0x626380A1, 0x16263806, 0x18C0, 0xD2E138C4, 0xF00, 0x3AFB5079, 0x898E04E5, 0xE2BA3C2B, 0x60C0, 0x53A37CD, 0x74458547, 0xDA9415ED, 0x26380A16, 0x626383A1, 0x4EBF54DE, 0x3835B44B, 0xF600, 0x1E84C7A3, 0x98E04D98, 0x651D16A0, 0x62658CA1, 0x458544D6, 0x44584CB7, 0x7BA06619, 0x6380AEA2, 0xAE55269, 0x627B49A1]"
  by (simp add: sha1_schedule_unfold rotl1 rotl1S)

lemma tv_sched3:
  "sha1_schedule 16 [0x61626380, 0x0, 0x0, 0x0, 0x0, 0x0, 0x0, 0x0, 0x0, 0x0, 0x0, 0x0, 0x0, 0x0, 0x0, 0x18, 0xC2C4C700, 0x0, 0x30, 0x85898E01, 0x0, 0x60, 0xB131C03, 0x30, 0x85898EC1, 0x16263806, 0x0, 0x180, 0x2C4C700C, 0xF0, 0x93AFB507, 0x5898E048, 0x8E9A9202, 0x600, 0xB131C0F0, 0x16263BC6, 0x4EBED41E, 0x626380A1, 0x16263806, 0x18C0, 0xD2E138C4, 0xF00, 0x3AFB5079, 0x898E04E5, 0xE2BA3C2B, 0x60C0, 0x53A37CD, 0x74458547, 0xDA9415ED, 0x26380A16, 0x626383A1, 0x4EBF54DE, 0x3835B44B, 0xF600, 0x1E84C7A3, 0x98E04D98, 0x651D16A0, 0x62658CA1, 0x458544D6, 0x44584CB7, 0x7BA06619, 0x6380AEA2, 0xAE55269, 0x627B49A1] = [0x61626380, 0x0, 0x0, 0x0, 0x0, 0x0, 0x0, 0x0, 0x0, 0x0, 0x0, 0x0, 0x0, 0x0, 0x0, 0x18, 0xC2C4C700, 0x0, 0x30, 0x85898E01, 0x0, 0x60, 0xB131C03, 0x30, 0x85898EC1, 0x16263806, 0x0, 0x180, 0x2C4C700C, 0xF0, 0x93AFB507, 0x5898E048, 0x8E9A9202, 0x600, 0xB131C0F0, 0x16263BC6, 0x4EBED41E, 0x626380A1, 0x16263806, 0x18C0, 0xD2E138C4, 0xF00, 0x3AFB5079, 0x898E04E5, 0xE2BA3C2B, 0x60C0, 0x53A37CD, 0x74458547, 0xDA9415ED, 0x26380A16, 0x626383A1, 0x4EBF54DE, 0x3835B44B, 0xF600, 0x1E84C7A3, 0x98E04D98, 0x651D16A0, 0x62658CA1, 0x458544D6, 0x44584CB7, 0x7BA06619, 0x6380AEA2, 0xAE55269, 0x627B49A1, 0x7CD45C9D, 0xF0000, 0xFB50753A, 0xEC6765E8, 0xBA3C2BE2, 0x60C000, 0x3A37CD05, 0x458546F4, 0xB8599DD6, 0x380A1A26, 0x1E02203, 0xE7CC3456, 0xE6E60B69, 0xF60A00, 0x5795EF4F, 0x822E0879]"
  by (simp add: sha1_schedule_unfold rotl1 rotl1S)

lemma tv_sched:
  "sha1_schedule 64 [0x61626380, 0x0, 0x0, 0x0, 0x0, 0x0, 0x0, 0x0, 0x0, 0x0, 0x0, 0x0, 0x0, 0x0, 0x0, 0x18] = [0x61626380, 0x0, 0x0, 0x0, 0x0, 0x0, 0x0, 0x0, 0x0, 0x0, 0x0, 0x0, 0x0, 0x0, 0x0, 0x18, 0xC2C4C700, 0x0, 0x30, 0x85898E01, 0x0, 0x60, 0xB131C03, 0x30, 0x85898EC1, 0x16263806, 0x0, 0x180, 0x2C4C700C, 0xF0, 0x93AFB507, 0x5898E048, 0x8E9A9202, 0x600, 0xB131C0F0, 0x16263BC6, 0x4EBED41E, 0x626380A1, 0x16263806, 0x18C0, 0xD2E138C4, 0xF00, 0x3AFB5079, 0x898E04E5, 0xE2BA3C2B, 0x60C0, 0x53A37CD, 0x74458547, 0xDA9415ED, 0x26380A16, 0x626383A1, 0x4EBF54DE, 0x3835B44B, 0xF600, 0x1E84C7A3, 0x98E04D98, 0x651D16A0, 0x62658CA1, 0x458544D6, 0x44584CB7, 0x7BA06619, 0x6380AEA2, 0xAE55269, 0x627B49A1, 0x7CD45C9D, 0xF0000, 0xFB50753A, 0xEC6765E8, 0xBA3C2BE2, 0x60C000, 0x3A37CD05, 0x458546F4, 0xB8599DD6, 0x380A1A26, 0x1E02203, 0xE7CC3456, 0xE6E60B69, 0xF60A00, 0x5795EF4F, 0x822E0879]"
  using sha1_schedule_add [of 16 48 "[0x61626380, 0x0, 0x0, 0x0, 0x0, 0x0, 0x0, 0x0, 0x0, 0x0, 0x0, 0x0, 0x0, 0x0, 0x0, 0x18]"] sha1_schedule_add [of 16 32 "[0x61626380, 0x0, 0x0, 0x0, 0x0, 0x0, 0x0, 0x0, 0x0, 0x0, 0x0, 0x0, 0x0, 0x0, 0x0, 0x18, 0xC2C4C700, 0x0, 0x30, 0x85898E01, 0x0, 0x60, 0xB131C03, 0x30, 0x85898EC1, 0x16263806, 0x0, 0x180, 0x2C4C700C, 0xF0, 0x93AFB507, 0x5898E048]"]
    sha1_schedule_add [of 16 16 "[0x61626380, 0x0, 0x0, 0x0, 0x0, 0x0, 0x0, 0x0, 0x0, 0x0, 0x0, 0x0, 0x0, 0x0, 0x0, 0x18, 0xC2C4C700, 0x0, 0x30, 0x85898E01, 0x0, 0x60, 0xB131C03, 0x30, 0x85898EC1, 0x16263806, 0x0, 0x180, 0x2C4C700C, 0xF0, 0x93AFB507, 0x5898E048, 0x8E9A9202, 0x600, 0xB131C0F0, 0x16263BC6, 0x4EBED41E, 0x626380A1, 0x16263806, 0x18C0, 0xD2E138C4, 0xF00, 0x3AFB5079, 0x898E04E5, 0xE2BA3C2B, 0x60C0, 0x53A37CD, 0x74458547]"]
  by (simp add: tv_sched0 tv_sched1 tv_sched2 tv_sched3)

lemma tv_rounds0:
  "foldl sha1_round (0x67452301, 0xEFCDAB89, 0x98BADCFE, 0x10325476, 0xC3D2E1F0) [(0, 0x61626380), (1, 0x0), (2, 0x0), (3, 0x0), (4, 0x0), (5, 0x0), (6, 0x0), (7, 0x0), (8, 0x0), (9, 0x0), (10, 0x0), (11, 0x0), (12, 0x0), (13, 0x0), (14, 0x0), (15, 0x18), (16, 0xC2C4C700), (17, 0x0), (18, 0x30), (19, 0x85898E01)] = (0xFD9E1D7D, 0xDC64901D, 0x20AA99CA, 0xD3A49608, 0xC82F758B)"
  by (simp add: sha1_f_def sha1_k_def rotl5 rotl30)

lemma tv_rounds1:
  "foldl sha1_round (0xFD9E1D7D, 0xDC64901D, 0x20AA99CA, 0xD3A49608, 0xC82F758B) [(20, 0x0), (21, 0x60), (22, 0xB131C03), (23, 0x30), (24, 0x85898EC1), (25, 0x16263806), (26, 0x0), (27, 0x180), (28, 0x2C4C700C), (29, 0xF0), (30, 0x93AFB507), (31, 0x5898E048), (32, 0x8E9A9202), (33, 0x600), (34, 0xB131C0F0), (35, 0x16263BC6), (36, 0x4EBED41E), (37, 0x626380A1), (38, 0x16263806), (39, 0x18C0)] = (0x32DE1CBA, 0x4C986405, 0xF718E5CF, 0x3D447F6, 0xF72EEC32)"
  by (simp add: sha1_f_def sha1_k_def rotl5 rotl30)

lemma tv_rounds2:
  "foldl sha1_round (0x32DE1CBA, 0x4C986405, 0xF718E5CF, 0x3D447F6, 0xF72EEC32) [(40, 0xD2E138C4), (41, 0xF00), (42, 0x3AFB5079), (43, 0x898E04E5), (44, 0xE2BA3C2B), (45, 0x60C0), (46, 0x53A37CD), (47, 0x74458547), (48, 0xDA9415ED), (49, 0x26380A16), (50, 0x626383A1), (51, 0x4EBF54DE), (52, 0x3835B44B), (53, 0xF600), (54, 0x1E84C7A3), (55, 0x98E04D98), (56, 0x651D16A0), (57, 0x62658CA1), (58, 0x458544D6), (59, 0x44584CB7)] = (0x3F52DE5A, 0x9D785FD, 0x3498BFD4, 0xF211824F, 0xD79915AB)"
  by (simp add: sha1_f_def sha1_k_def rotl5 rotl30)

lemma tv_rounds3:
  "foldl sha1_round (0x3F52DE5A, 0x9D785FD, 0x3498BFD4, 0xF211824F, 0xD79915AB) [(60, 0x7BA06619), (61, 0x6380AEA2), (62, 0xAE55269), (63, 0x627B49A1), (64, 0x7CD45C9D), (65, 0xF0000), (66, 0xFB50753A), (67, 0xEC6765E8), (68, 0xBA3C2BE2), (69, 0x60C000), (70, 0x3A37CD05), (71, 0x458546F4), (72, 0xB8599DD6), (73, 0x380A1A26), (74, 0x1E02203), (75, 0xE7CC3456), (76, 0xE6E60B69), (77, 0xF60A00), (78, 0x5795EF4F), (79, 0x822E0879)] = (0x42541B35, 0x5738D5E1, 0x21834873, 0x681E6DF6, 0xD8FDF6AD)"
  by (simp add: sha1_f_def sha1_k_def rotl5 rotl30)

lemma tv_zip:
  "zip [0..<80] [0x61626380, 0x0, 0x0, 0x0, 0x0, 0x0, 0x0, 0x0, 0x0, 0x0, 0x0, 0x0, 0x0, 0x0, 0x0, 0x18, 0xC2C4C700, 0x0, 0x30, 0x85898E01, 0x0, 0x60, 0xB131C03, 0x30, 0x85898EC1, 0x16263806, 0x0, 0x180, 0x2C4C700C, 0xF0, 0x93AFB507, 0x5898E048, 0x8E9A9202, 0x600, 0xB131C0F0, 0x16263BC6, 0x4EBED41E, 0x626380A1, 0x16263806, 0x18C0, 0xD2E138C4, 0xF00, 0x3AFB5079, 0x898E04E5, 0xE2BA3C2B, 0x60C0, 0x53A37CD, 0x74458547, 0xDA9415ED, 0x26380A16, 0x626383A1, 0x4EBF54DE, 0x3835B44B, 0xF600, 0x1E84C7A3, 0x98E04D98, 0x651D16A0, 0x62658CA1, 0x458544D6, 0x44584CB7, 0x7BA06619, 0x6380AEA2, 0xAE55269, 0x627B49A1, 0x7CD45C9D, 0xF0000, 0xFB50753A, 0xEC6765E8, 0xBA3C2BE2, 0x60C000, 0x3A37CD05, 0x458546F4, 0xB8599DD6, 0x380A1A26, 0x1E02203, 0xE7CC3456, 0xE6E60B69, 0xF60A00, 0x5795EF4F, 0x822E0879] = [(0, 0x61626380), (1, 0x0), (2, 0x0), (3, 0x0), (4, 0x0), (5, 0x0), (6, 0x0), (7, 0x0), (8, 0x0), (9, 0x0), (10, 0x0), (11, 0x0), (12, 0x0), (13, 0x0), (14, 0x0), (15, 0x18), (16, 0xC2C4C700), (17, 0x0), (18, 0x30), (19, 0x85898E01)] @ [(20, 0x0), (21, 0x60), (22, 0xB131C03), (23, 0x30), (24, 0x85898EC1), (25, 0x16263806), (26, 0x0), (27, 0x180), (28, 0x2C4C700C), (29, 0xF0), (30, 0x93AFB507), (31, 0x5898E048), (32, 0x8E9A9202), (33, 0x600), (34, 0xB131C0F0), (35, 0x16263BC6), (36, 0x4EBED41E), (37, 0x626380A1), (38, 0x16263806), (39, 0x18C0)] @ [(40, 0xD2E138C4), (41, 0xF00), (42, 0x3AFB5079), (43, 0x898E04E5), (44, 0xE2BA3C2B), (45, 0x60C0), (46, 0x53A37CD), (47, 0x74458547), (48, 0xDA9415ED), (49, 0x26380A16), (50, 0x626383A1), (51, 0x4EBF54DE), (52, 0x3835B44B), (53, 0xF600), (54, 0x1E84C7A3), (55, 0x98E04D98), (56, 0x651D16A0), (57, 0x62658CA1), (58, 0x458544D6), (59, 0x44584CB7)] @ [(60, 0x7BA06619), (61, 0x6380AEA2), (62, 0xAE55269), (63, 0x627B49A1), (64, 0x7CD45C9D), (65, 0xF0000), (66, 0xFB50753A), (67, 0xEC6765E8), (68, 0xBA3C2BE2), (69, 0x60C000), (70, 0x3A37CD05), (71, 0x458546F4), (72, 0xB8599DD6), (73, 0x380A1A26), (74, 0x1E02203), (75, 0xE7CC3456), (76, 0xE6E60B69), (77, 0xF60A00), (78, 0x5795EF4F), (79, 0x822E0879)]"
  by (simp add: upt_rec)

lemma tv_fold:
  "foldl sha1_round (0x67452301, 0xEFCDAB89, 0x98BADCFE, 0x10325476, 0xC3D2E1F0) (zip [0..<80] [0x61626380, 0x0, 0x0, 0x0, 0x0, 0x0, 0x0, 0x0, 0x0, 0x0, 0x0, 0x0, 0x0, 0x0, 0x0, 0x18, 0xC2C4C700, 0x0, 0x30, 0x85898E01, 0x0, 0x60, 0xB131C03, 0x30, 0x85898EC1, 0x16263806, 0x0, 0x180, 0x2C4C700C, 0xF0, 0x93AFB507, 0x5898E048, 0x8E9A9202, 0x600, 0xB131C0F0, 0x16263BC6, 0x4EBED41E, 0x626380A1, 0x16263806, 0x18C0, 0xD2E138C4, 0xF00, 0x3AFB5079, 0x898E04E5, 0xE2BA3C2B, 0x60C0, 0x53A37CD, 0x74458547, 0xDA9415ED, 0x26380A16, 0x626383A1, 0x4EBF54DE, 0x3835B44B, 0xF600, 0x1E84C7A3, 0x98E04D98, 0x651D16A0, 0x62658CA1, 0x458544D6, 0x44584CB7, 0x7BA06619, 0x6380AEA2, 0xAE55269, 0x627B49A1, 0x7CD45C9D, 0xF0000, 0xFB50753A, 0xEC6765E8, 0xBA3C2BE2, 0x60C000, 0x3A37CD05, 0x458546F4, 0xB8599DD6, 0x380A1A26, 0x1E02203, 0xE7CC3456, 0xE6E60B69, 0xF60A00, 0x5795EF4F, 0x822E0879]) = (0x42541B35, 0x5738D5E1, 0x21834873, 0x681E6DF6, 0xD8FDF6AD)"
  by (simp only: tv_zip foldl_append tv_rounds0 tv_rounds1 tv_rounds2 tv_rounds3)

lemma tv_block:
  "sha1_block sha1_init [0x61, 0x62, 0x63, 0x80, 0x0, 0x0, 0x0, 0x0, 0x0, 0x0, 0x0, 0x0, 0x0, 0x0, 0x0, 0x0, 0x0, 0x0, 0x0, 0x0, 0x0, 0x0, 0x0, 0x0, 0x0, 0x0, 0x0, 0x0, 0x0, 0x0, 0x0, 0x0, 0x0, 0x0, 0x0, 0x0, 0x0, 0x0, 0x0, 0x0, 0x0, 0x0, 0x0, 0x0, 0x0, 0x0, 0x0, 0x0, 0x0, 0x0, 0x0, 0x0, 0x0, 0x0, 0x0, 0x0, 0x0, 0x0, 0x0, 0x0, 0x0, 0x0, 0x0, 0x18] = (0xA9993E36, 0x4706816A, 0xBA3E2571, 0x7850C26C, 0x9CD0D89D)"
  unfolding sha1_init_def sha1_block.simps tv_blk tv_sched Let_def tv_fold by simp

lemma tv_hex:
  "hexdigest (0xA9993E36, 0x4706816A, 0xBA3E2571, 0x7850C26C, 0x9CD0D89D) = ''a9993e364706816aba3e25717850c26c9cd0d89d''"
  by (simp add: hex32_def digit_char_def upt_rec)

lemma tv_sha1:
  "hexdigest (sha1 (encode (''abc''))) = ''a9993e364706816aba3e25717850c26c9cd0d89d''"
  unfolding sha1_def tv_enc tv_pad tv_chunks foldl.simps tv_block tv_hex by (rule refl)









































section \<open>Properties of the retriever configuration\<close>

text \<open>
  Claim C6.  With the search type "similarity with score threshold" and no threshold,
  building the retriever fails on the assertion, and no call has been made on the
  vector store; with a threshold, the retriever is built by one call on the vector
  store and the threshold is the \<open>score_threshold\<close> entry of its search arguments.
\<close>

theorem get_retriever_threshold:
  "get_retriever k SimilarityScoreThreshold None fetch_k lambda_mult vs
     = (Inl AssertionError, vs)
   \<and> (\<exists>kw. get_retriever k SimilarityScoreThreshold (Some t) fetch_k lambda_mult vs
         = (Inr \<lparr>search_type = SimilarityScoreThreshold, search_kwargs = kw\<rparr>,
            vs @ [AsRetriever SimilarityScoreThreshold kw])
       \<and> map_of kw ''score_threshold'' = Some (KFloat t))"
proof -
  have "map_of (dict_set ''score_threshold'' (KFloat t) kw0) ''score_threshold''
          = Some (KFloat t)" for kw0 :: "(string \<times> 'a kwarg) list"
    by (induction kw0) auto
  then show ?thesis by (simp add: get_retriever_def Let_def)
qed

text \<open>
  Claim C9.  Unless the search type is "similarity with score threshold", two calls
  that differ only in \<open>score_threshold\<close> give the same result, which is a retriever and
  not an error; unless the search type is MMR, two calls that differ only in \<open>fetch_k\<close>
  and \<open>lambda_mult\<close> give the same result.
\<close>

theorem get_retriever_ignores_inapplicable:
  "(st \<noteq> SimilarityScoreThreshold \<longrightarrow>
      get_retriever k st t1 fetch_k lambda_mult vs = get_retriever k st t2 fetch_k lambda_mult vs
      \<and> (\<exists>r. fst (get_retriever k st t1 fetch_k lambda_mult vs) = Inr r))
   \<and> (st \<noteq> MMR \<longrightarrow>
      get_retriever k st t fk1 lm1 vs = get_retriever k st t fk2 lm2 vs)"
  by (cases st) (simp_all add: get_retriever_def Let_def)

theorem get_retriever_ignores_inapplicable_witness:
  "get_retriever (Some 4) MMR (Some (1::nat)) (Some 20) (Some 2) []
     = get_retriever (Some 4) MMR None (Some 20) (Some 2) []
   \<and> get_retriever (Some 4) Similarity (Some (1::nat)) (Some 20) (Some 2) []
     = get_retriever (Some 4) Similarity (Some 1) None None []"
  using get_retriever_ignores_inapplicable
    [where st = MMR and k = "Some 4" and ?t1.0 = "Some (1::nat)" and ?t2.0 = None
       and fetch_k = "Some 20" and lambda_mult = "Some 2" and vs = "[]"]
    get_retriever_ignores_inapplicable
    [where st = Similarity and k = "Some 4" and t = "Some (1::nat)" and ?fk1.0 = "Some 20"
       and ?lm1.0 = "Some 2" and ?fk2.0 = None and ?lm2.0 = None and vs = "[]"]
  by simp

section \<open>Properties of the answer composition\<close>

lemma format_each_sources:
  "list_all2 (\<lambda>d s. map_of (metadata d) ''source'' = Some s) docs srcs \<Longrightarrow>
   format_each docs = Inr (map spec_entry (zip (map page_content docs) srcs))"
  by (induction docs srcs rule: list_all2_induct)
     (simp_all add: format_doc_def spec_entry_def newline_def)

lemma str_join_spec_block:
  "str_join [CHR 0x0A, CHR 0x0A] (map spec_entry es) = spec_context_block es"
  by (induction es rule: spec_context_block.induct) simp_all

text \<open>
  Claim C7.  For documents that carry a \<open>source\<close>, the context block computed by
  \<open>format_docs\<close> is the one the specification describes: the entries
  \<open>Content: <text>\<close>, line break, \<open>Source: <source>\<close>, in the order of the documents, with
  exactly two line breaks between consecutive entries.
\<close>

theorem format_docs_context_block:
  assumes "list_all2 (\<lambda>d s. map_of (metadata d) ''source'' = Some s) docs srcs"
  shows "format_docs docs = Inr (spec_context_block (zip (map page_content docs) srcs))"
  using format_each_sources [OF assms]
  by (simp add: format_docs_def newline_def str_join_spec_block)

theorem format_docs_context_block_witness:
  "format_docs
     [\<lparr>page_content = ''Points are awarded.'', metadata = [(''source'', SStr ''rules.html'')]\<rparr>,
      \<lparr>page_content = ''Ten teams.'',
       metadata = [(''title'', SStr ''Teams''), (''source'', SStr ''teams.html'')]\<rparr>]
   = Inr (''Content: Points are awarded.'' @ [CHR 0x0A] @ ''Source: rules.html''
          @ [CHR 0x0A, CHR 0x0A]
          @ ''Content: Ten teams.'' @ [CHR 0x0A] @ ''Source: teams.html'')"
proof -
  let ?docs =
    "[\<lparr>page_content = ''Points are awarded.'', metadata = [(''source'', SStr ''rules.html'')]\<rparr>,
      \<lparr>page_content = ''Ten teams.'',
       metadata = [(''title'', SStr ''Teams''), (''source'', SStr ''teams.html'')]\<rparr>]"
  have h: "list_all2 (\<lambda>d s. map_of (metadata d) ''source'' = Some s) ?docs
             [SStr ''rules.html'', SStr ''teams.html'']"
    by simp
  from format_docs_context_block [OF h] show ?thesis
    by (simp add: spec_entry_def)
qed

text \<open>
  Claim C8.  The chain returns an answer exactly when the retriever returns documents,
  they can be formatted and the chat model replies; the answer then holds the
  question as asked, the retriever's documents themselves in their order, and the
  reply of the chat model to the prompt made of the question and the formatted
  documents.
\<close>

theorem get_rag_chain_answer:
  "get_rag_chain retriever chat_model q = Inr a \<longleftrightarrow>
     retriever q = Inr (source_documents a) \<and> question a = q
     \<and> (\<exists>ctx. format_docs (source_documents a) = Inr ctx
             \<and> chat_model (prompt_text q ctx) = Inr (answer a))"
  by (cases a) (auto simp: get_rag_chain_def split: sum.splits)

theorem get_rag_chain_answer_witness:
  "get_rag_chain
     (\<lambda>q. Inr [\<lparr>page_content = ''Points are awarded.'',
                 metadata = [(''source'', SStr ''rules.html'')]\<rparr>])
     (\<lambda>p. Inr ''25 points (rules.html)'') ''What is the points system?''
   = Inr \<lparr>source_documents = [\<lparr>page_content = ''Points are awarded.'',
                                  metadata = [(''source'', SStr ''rules.html'')]\<rparr>],
          question = ''What is the points system?'',
          answer = ''25 points (rules.html)''\<rparr>"
  using get_rag_chain_answer
    [of "\<lambda>q. Inr [\<lparr>page_content = ''Points are awarded.'',
                     metadata = [(''source'', SStr ''rules.html'')]\<rparr>]"
        "\<lambda>p. Inr ''25 points (rules.html)''" "''What is the points system?''"
        "\<lparr>source_documents = [\<lparr>page_content = ''Points are awarded.'',
                                  metadata = [(''source'', SStr ''rules.html'')]\<rparr>],
          question = ''What is the points system?'',
          answer = ''25 points (rules.html)''\<rparr>"]
  by (simp add: format_docs_def format_doc_def)

section \<open>Properties of the indexer\<close>

lemma calls_log_call: "calls (log_call ev w) = calls w @ [ev]"
  by (simp add: log_call_def)

lemma persisted_log_call: "persisted (log_call ev w) = persisted w"
  by (simp add: log_call_def)

lemma collections_log_call: "collections (log_call ev w) = collections w"
  by (simp add: collections_def persisted_log_call)

lemma the_collection_log_call: "the_collection S (log_call ev w) = the_collection S w"
  by (simp add: the_collection_def collections_log_call)

lemma calls_set_collection: "calls (set_collection S c w) = calls w"
  by (simp add: set_collection_def)

lemma the_collection_set_collection: "the_collection S (set_collection S c w) = c"
  by (simp add: the_collection_def collections_def set_collection_def)

lemma the_collection_get_chromadb: "the_collection S (get_chromadb S w) = the_collection S w"
  by (simp add: get_chromadb_def the_collection_log_call the_collection_set_collection)

lemma calls_get_chromadb: "calls (get_chromadb S w) = calls w @ [OpenCollection]"
  by (simp add: get_chromadb_def calls_log_call calls_set_collection)

lemma set_collection_same:
  "collections w (docs_db_collection S) = Some c \<Longrightarrow> persisted w = Some m \<Longrightarrow>
   set_collection S c w = w"
  by (simp add: set_collection_def collections_def fun_upd_idem)

lemma sources_of_docs:
  "list_all has_source ds \<Longrightarrow> sources_of (map metadata ds) = Inr (map doc_source ds)"
  by (induction ds) (auto simp: has_source_def doc_source_def split: sum.splits)

lemma sources_of_entries:
  "wf_collection c \<Longrightarrow>
   sources_of (entry_metadatas c) = Inr (map (\<lambda>ie. doc_source (fst (snd ie))) c)"
  by (induction c)
     (auto simp: wf_collection_def entry_metadatas_def has_source_def doc_source_def
           split: sum.splits)

lemma indexed_doc_filepaths_wf:
  "wf_collection c \<Longrightarrow>
   indexed_doc_filepaths c = Inr (sort (remdups (map (\<lambda>ie. doc_source (fst (snd ie))) c)))"
  by (simp add: indexed_doc_filepaths_def sources_of_entries)

lemma set_indexed: "set (sort (remdups (map (\<lambda>ie. doc_source (fst (snd ie))) c))) = entry_sources c"
  by (simp add: entry_sources_def)

text \<open>
  Claim C5.  When \<open>exist_ok\<close> is not set and the collection exists in the persisted
  store, the run ends with the "already exists" error whatever the policy and the
  documents are; the only call made is the listing of the collections, so no document
  has been loaded, and the persisted store is as before.
\<close>

theorem create_db_exist_gate:
  assumes "persisted w = Some m" and "m (docs_db_collection S) = Some c"
  shows "create_db S embedder split_text docs False on_match w
     = (Some (RuntimeError (exists_msg S)), w\<lparr>calls := calls w @ [ListCollections]\<rparr>)"
  using assms
  by (simp add: create_db_def prepare_batch_def check_exist_ok_def log_call_def)

theorem create_db_exist_gate_witness:
  "create_db \<lparr>docs_db_directory = ''db'', docs_db_collection = ''docs''\<rparr> length (\<lambda>t. [(t, 0)])
     [\<lparr>page_content = ''new text'', metadata = [(''source'', SStr ''doc.html'')]\<rparr>] False IGNORE
     \<lparr>persisted = Some [''docs'' \<mapsto> [(''id1'',
          (\<lparr>page_content = ''old text'', metadata = [(''source'', SStr ''doc.html'')]\<rparr>, 8::nat))]],
      calls = []\<rparr>
   = (Some (RuntimeError (exists_msg \<lparr>docs_db_directory = ''db'', docs_db_collection = ''docs''\<rparr>)),
      \<lparr>persisted = Some [''docs'' \<mapsto> [(''id1'',
          (\<lparr>page_content = ''old text'', metadata = [(''source'', SStr ''doc.html'')]\<rparr>, 8::nat))]],
       calls = [ListCollections]\<rparr>)"
  using create_db_exist_gate
    [where w = "\<lparr>persisted = Some [''docs'' \<mapsto> [(''id1'',
          (\<lparr>page_content = ''old text'', metadata = [(''source'', SStr ''doc.html'')]\<rparr>, 8::nat))]],
      calls = []\<rparr>"
       and m = "[''docs'' \<mapsto> [(''id1'',
          (\<lparr>page_content = ''old text'', metadata = [(''source'', SStr ''doc.html'')]\<rparr>, 8::nat))]]"
       and S = "\<lparr>docs_db_directory = ''db'', docs_db_collection = ''docs''\<rparr>"
       and c = "[(''id1'',
          (\<lparr>page_content = ''old text'', metadata = [(''source'', SStr ''doc.html'')]\<rparr>, 8::nat))]"
       and embedder = length and split_text = "\<lambda>t. [(t, 0)]"
       and docs = "[\<lparr>page_content = ''new text'', metadata = [(''source'', SStr ''doc.html'')]\<rparr>]"
       and on_match = IGNORE]
  by simp

lemma nonempty_collection_persisted:
  assumes "the_collection S w \<noteq> []"
  obtains m where "persisted w = Some m" and "m (docs_db_collection S) = Some (the_collection S w)"
  using assms
  by (auto simp: the_collection_def collections_def split: option.splits)

lemma get_chromadb_existing:
  assumes "persisted w = Some m" and "m (docs_db_collection S) = Some c"
  shows "get_chromadb S w = log_call OpenCollection w"
proof -
  have "the_collection S w = c" using assms by (simp add: the_collection_def collections_def)
  moreover have "collections w (docs_db_collection S) = Some c"
    using assms by (simp add: collections_def)
  ultimately show ?thesis using assms(1) by (simp add: get_chromadb_def set_collection_same)
qed

lemma create_db_fail_result:
  assumes wf: "wf_collection (the_collection S w)" and docs: "list_all has_source docs"
    and hit: "\<exists>d \<in> set docs. doc_source d \<in> entry_sources (the_collection S w)"
  shows "create_db S embedder split_text docs True FAIL w
     = (Some (RuntimeError (collision_msg (sort (remdups
          (filter (\<lambda>s. s \<in> entry_sources (the_collection S w)) (map doc_source docs)))))),
        w\<lparr>calls := calls w @ [OpenCollection, GetMetadatas, LoadDocuments]\<rparr>)"
proof -
  from hit have ne: "the_collection S w \<noteq> []" by (auto simp: entry_sources_def)
  then obtain m where m: "persisted w = Some m"
    "m (docs_db_collection S) = Some (the_collection S w)"
    by (rule nonempty_collection_persisted)
  have gate: "check_exist_ok S True w = (None, w)"
    using m by (simp add: check_exist_ok_def)
  have op: "get_chromadb S w = log_call OpenCollection w"
    using m by (rule get_chromadb_existing)
  let ?w3 = "log_call GetMetadatas (log_call OpenCollection w)"
  have ix: "indexed_doc_filepaths (the_collection S ?w3)
      = Inr (sort (remdups (map (\<lambda>ie. doc_source (fst (snd ie))) (the_collection S w))))"
    using wf by (simp add: the_collection_log_call indexed_doc_filepaths_wf)
  from hit have match: "filter (\<lambda>s. s \<in> entry_sources (the_collection S w)) (map doc_source docs) \<noteq> []"
    by (auto simp: filter_empty_conv)
  have step: "on_match_step S FAIL (sort (remdups (map (\<lambda>ie. doc_source (fst (snd ie))) (the_collection S w)))) docs w'
      = (Inl (RuntimeError (collision_msg (sort (remdups
          (filter (\<lambda>s. s \<in> entry_sources (the_collection S w)) (map doc_source docs)))))), w')" for w' :: "'a world"
    using match by (simp add: on_match_step_def sources_of_docs [OF docs] entry_sources_def Let_def)
  show ?thesis
    by (simp add: create_db_def prepare_batch_def gate op ix step Let_def)
       (simp add: log_call_def)
qed

lemma str_join_lists:
  "s \<in> set srcs \<Longrightarrow>
   \<exists>pre post. quote @ str_join (quote @ m @ quote) srcs @ quote = pre @ quote @ s @ quote @ post"
proof (induction "quote @ m @ quote" srcs rule: str_join.induct)
  case 1
  then show ?case by simp
next
  case (2 x)
  then have "quote @ str_join (quote @ m @ quote) [x] @ quote = [] @ quote @ s @ quote @ []"
    by simp
  then show ?case by blast
next
  case (3 x y ys)
  show ?case
  proof (cases "s = x")
    case True
    then have "quote @ str_join (quote @ m @ quote) (x # y # ys) @ quote
        = [] @ quote @ s @ quote @ (m @ quote @ str_join (quote @ m @ quote) (y # ys) @ quote)"
      by simp
    then show ?thesis by blast
  next
    case False
    with 3 obtain pre post where
      "quote @ str_join (quote @ m @ quote) (y # ys) @ quote = pre @ quote @ s @ quote @ post"
      by auto
    then have "quote @ str_join (quote @ m @ quote) (x # y # ys) @ quote
        = (quote @ x @ quote @ m @ pre) @ quote @ s @ quote @ post"
      by simp
    then show ?thesis by blast
  qed
qed

lemma collision_msg_lists:
  assumes "s \<in> set srcs"
  shows "\<exists>pre post. collision_msg srcs = pre @ quote @ s @ quote @ post"
proof -
  from str_join_lists [OF assms, of "'', ''"] obtain pre post where
    e: "quote @ str_join (quote @ '', '' @ quote) srcs @ quote = pre @ quote @ s @ quote @ post"
    by blast
  define p where "p = ''Some of the given documents are indexed already. Set '' @ quote
     @ ''--on-match ignore'' @ quote @ '' to ignore the already indexed documents or '' @ quote
     @ ''--on-match replace'' @ quote
     @ '' to index them again. List of the already indexed documents: ''"
  have "collision_msg srcs = p @ (quote @ str_join (quote @ '', '' @ quote) srcs @ quote) @ ''.''"
    by (simp add: collision_msg_def p_def)
  also have "\<dots> = (p @ pre) @ quote @ s @ quote @ (post @ ''.'')"
    unfolding e by simp
  finally show ?thesis by blast
qed

text \<open>
  Claim C3.  Under the policy FAIL, in a run that gets to load the documents
  (\<open>exist_ok\<close> is set), if the source of a loaded document is already in the index, the
  run ends with the error whose message lists, sorted and once each, exactly the
  sources of loaded documents that are indexed: every such source stands in the text of
  the message between quotes.  The persisted store is as before, and the calls made
  are the opening of the collection, the reading of its metadata and the loading: no
  delete and no upsert.
\<close>

theorem create_db_fail_collision:
  assumes wf: "wf_collection (the_collection S w)" and docs: "list_all has_source docs"
    and hit: "\<exists>d \<in> set docs. doc_source d \<in> entry_sources (the_collection S w)"
  shows "create_db S embedder split_text docs True FAIL w
     = (Some (RuntimeError (collision_msg (sort (remdups
          (filter (\<lambda>s. s \<in> entry_sources (the_collection S w)) (map doc_source docs)))))),
        w\<lparr>calls := calls w @ [OpenCollection, GetMetadatas, LoadDocuments]\<rparr>)
   \<and> (\<forall>d \<in> set docs. doc_source d \<in> entry_sources (the_collection S w) \<longrightarrow>
        (\<exists>pre post. collision_msg (sort (remdups
            (filter (\<lambda>s. s \<in> entry_sources (the_collection S w)) (map doc_source docs))))
          = pre @ quote @ doc_source d @ quote @ post))"
proof (intro conjI ballI impI)
  show "create_db S embedder split_text docs True FAIL w
     = (Some (RuntimeError (collision_msg (sort (remdups
          (filter (\<lambda>s. s \<in> entry_sources (the_collection S w)) (map doc_source docs)))))),
        w\<lparr>calls := calls w @ [OpenCollection, GetMetadatas, LoadDocuments]\<rparr>)"
    using wf docs hit by (rule create_db_fail_result)
next
  fix d assume "d \<in> set docs" and "doc_source d \<in> entry_sources (the_collection S w)"
  then have "doc_source d \<in> set (sort (remdups
      (filter (\<lambda>s. s \<in> entry_sources (the_collection S w)) (map doc_source docs))))"
    by simp
  then show "\<exists>pre post. collision_msg (sort (remdups
            (filter (\<lambda>s. s \<in> entry_sources (the_collection S w)) (map doc_source docs))))
          = pre @ quote @ doc_source d @ quote @ post"
    by (rule collision_msg_lists)
qed

theorem create_db_fail_collision_witness:
  "create_db \<lparr>docs_db_directory = ''db'', docs_db_collection = ''docs''\<rparr> length (\<lambda>t. [(t, 0)])
     [\<lparr>page_content = ''new text'', metadata = [(''source'', SStr ''doc.html'')]\<rparr>,
      \<lparr>page_content = ''other'', metadata = [(''source'', SStr ''b.html'')]\<rparr>,
      \<lparr>page_content = ''more'', metadata = [(''source'', SStr ''a.html'')]\<rparr>] True FAIL
     \<lparr>persisted = Some [''docs'' \<mapsto>
        [(''id1'', (\<lparr>page_content = ''old text'',
                      metadata = [(''source'', SStr ''doc.html'')]\<rparr>, 8::nat)),
         (''id2'', (\<lparr>page_content = ''old a'',
                      metadata = [(''source'', SStr ''a.html'')]\<rparr>, 5))]],
      calls = []\<rparr>
   = (Some (RuntimeError
        (''Some of the given documents are indexed already. Set '' @ [CHR 0x27]
         @ ''--on-match ignore'' @ [CHR 0x27]
         @ '' to ignore the already indexed documents or '' @ [CHR 0x27]
         @ ''--on-match replace'' @ [CHR 0x27]
         @ '' to index them again. List of the already indexed documents: '' @ [CHR 0x27]
         @ ''a.html'' @ [CHR 0x27] @ '', '' @ [CHR 0x27] @ ''doc.html'' @ [CHR 0x27] @ ''.'')),
      \<lparr>persisted = Some [''docs'' \<mapsto>
        [(''id1'', (\<lparr>page_content = ''old text'',
                      metadata = [(''source'', SStr ''doc.html'')]\<rparr>, 8::nat)),
         (''id2'', (\<lparr>page_content = ''old a'',
                      metadata = [(''source'', SStr ''a.html'')]\<rparr>, 5))]],
       calls = [OpenCollection, GetMetadatas, LoadDocuments]\<rparr>)"
proof -
  let ?S = "\<lparr>docs_db_directory = ''db'', docs_db_collection = ''docs''\<rparr>"
  let ?c = "[(''id1'', (\<lparr>page_content = ''old text'',
                      metadata = [(''source'', SStr ''doc.html'')]\<rparr>, 8::nat)),
         (''id2'', (\<lparr>page_content = ''old a'',
                      metadata = [(''source'', SStr ''a.html'')]\<rparr>, 5))]"
  let ?w = "\<lparr>persisted = Some [''docs'' \<mapsto> ?c], calls = []\<rparr>"
  let ?docs = "[\<lparr>page_content = ''new text'', metadata = [(''source'', SStr ''doc.html'')]\<rparr>,
      \<lparr>page_content = ''other'', metadata = [(''source'', SStr ''b.html'')]\<rparr>,
      \<lparr>page_content = ''more'', metadata = [(''source'', SStr ''a.html'')]\<rparr>]"
  have c: "the_collection ?S ?w = ?c"
    by (simp add: the_collection_def collections_def)
  have a: "wf_collection (the_collection ?S ?w)"
    by (simp add: c wf_collection_def has_source_def source_of_def)
  have b: "list_all has_source ?docs"
    by (simp add: has_source_def source_of_def)
  have h: "\<exists>d \<in> set ?docs. doc_source d \<in> entry_sources (the_collection ?S ?w)"
    by (simp add: c entry_sources_def doc_source_def source_of_def)
  have l: "sort (remdups (filter (\<lambda>s. s \<in> entry_sources (the_collection ?S ?w))
        (map doc_source ?docs))) = [''a.html'', ''doc.html'']"
    by (simp add: c entry_sources_def doc_source_def source_of_def less_eq_char_def
        less_char_def)
  note r = create_db_fail_collision [OF a b h, of length "\<lambda>t. [(t, 0)]", THEN conjunct1]
  show ?thesis
    using r unfolding l by (simp add: collision_msg_def quote_def)
qed

lemma ids_to_replace_nil:
  "sources_of mds = Inr ss \<Longrightarrow> length ids = length mds \<Longrightarrow> ids_to_replace [] (zip ids mds) = Inr []"
proof (induction mds arbitrary: ss ids)
  case Nil
  then show ?case by simp
next
  case (Cons md mds)
  then show ?case by (cases ids) (auto split: sum.splits)
qed

lemma delete_ids_nil: "delete_ids [] c = c"
  by (simp add: delete_ids_def)

text \<open>
  Claim C10.  If the batch left by the policy is empty, the run succeeds in the state
  the policy step left: the entries of the collection are those before the run, and
  among the calls of the run there is no splitting, no adding of documents and no
  persist.
\<close>

theorem create_db_empty_batch:
  assumes "fst (prepare_batch S docs exist_ok on_match w) = Inr []"
  shows "create_db S embedder split_text docs exist_ok on_match w
       = (None, snd (prepare_batch S docs exist_ok on_match w))
     \<and> the_collection S (snd (create_db S embedder split_text docs exist_ok on_match w))
       = the_collection S w
     \<and> (\<exists>evs. calls (snd (create_db S embedder split_text docs exist_ok on_match w))
               = calls w @ evs
            \<and> (\<forall>ev \<in> set evs. \<not> is_index_work ev))"
proof -
  obtain r w1 where p: "prepare_batch S docs exist_ok on_match w = (r, w1)"
    by (cases "prepare_batch S docs exist_ok on_match w")
  with assms have r: "r = Inr []" by simp
  have c: "create_db S embedder split_text docs exist_ok on_match w = (None, w1)"
    by (simp add: create_db_def p r index_batch_def)
  obtain g w0 where g: "check_exist_ok S exist_ok w = (g, w0)"
    by (cases "check_exist_ok S exist_ok w")
  have g0: "g = None"
    using p r g by (cases g) (simp_all add: prepare_batch_def)
  have w0: "the_collection S w0 = the_collection S w
      \<and> (\<exists>evs. calls w0 = calls w @ evs \<and> (\<forall>ev \<in> set evs. \<not> is_index_work ev))"
    using g by (auto simp: check_exist_ok_def the_collection_log_call calls_log_call
        is_index_work_def split: option.splits if_splits)
  let ?w3 = "log_call GetMetadatas (get_chromadb S w0)"
  let ?w4 = "log_call LoadDocuments ?w3"
  have c3: "the_collection S ?w4 = the_collection S w"
    using w0 by (simp add: the_collection_log_call the_collection_get_chromadb)
  obtain ix where ix: "indexed_doc_filepaths (the_collection S w) = Inr ix"
    and st: "on_match_step S on_match ix docs ?w4 = (Inr [], w1)"
    using p r g g0 c3
    by (auto simp: prepare_batch_def Let_def the_collection_log_call split: sum.splits)
  from w0 obtain evs0 where e0: "calls w0 = calls w @ evs0" "\<forall>ev \<in> set evs0. \<not> is_index_work ev"
    by blast
  have e4: "calls ?w4 = calls w @ (evs0 @ [OpenCollection, GetMetadatas, LoadDocuments])"
    using e0 by (simp add: calls_log_call calls_get_chromadb)
  obtain ss where ss: "sources_of (entry_metadatas (the_collection S w)) = Inr ss"
    using ix by (auto simp: indexed_doc_filepaths_def split: sum.splits)
  have fin: "the_collection S w1 = the_collection S ?w4
      \<and> (\<exists>evs. calls w1 = calls ?w4 @ evs \<and> (\<forall>ev \<in> set evs. \<not> is_index_work ev))"
  proof (cases on_match)
    case IGNORE
    with st show ?thesis by (auto simp: on_match_step_def)
  next
    case FAIL
    with st show ?thesis
      by (auto simp: on_match_step_def Let_def split: sum.splits if_splits)
  next
    case REPLACE
    with st have d: "docs = []"
      by (auto simp: on_match_step_def Let_def split: sum.splits)
    have "ids_to_replace [] (zip (entry_ids (the_collection S w)) (entry_metadatas (the_collection S w))) = Inr []"
      using ss by (rule ids_to_replace_nil) (simp add: entry_ids_def entry_metadatas_def)
    with st REPLACE d c3 have "w1 = log_call (Delete []) (set_collection S (the_collection S w) (log_call GetMetadatas ?w4))"
      by (simp add: on_match_step_def Let_def the_collection_log_call delete_ids_nil)
    then show ?thesis
      using c3 by (simp add: the_collection_log_call the_collection_set_collection calls_log_call
          calls_set_collection is_index_work_def)
  qed
  then obtain evs1 where e1: "calls w1 = calls ?w4 @ evs1" "\<forall>ev \<in> set evs1. \<not> is_index_work ev"
    by blast
  have "calls w1 = calls w @ (evs0 @ [OpenCollection, GetMetadatas, LoadDocuments] @ evs1)"
    using e1(1) e4 by simp
  moreover have "\<forall>ev \<in> set (evs0 @ [OpenCollection, GetMetadatas, LoadDocuments] @ evs1). \<not> is_index_work ev"
    using e0(2) e1(2) by (auto simp: is_index_work_def)
  ultimately have "\<exists>evs. calls w1 = calls w @ evs \<and> (\<forall>ev \<in> set evs. \<not> is_index_work ev)"
    by blast
  then show ?thesis using c fin c3 p by simp
qed

theorem create_db_empty_batch_witness:
  "fst (prepare_batch \<lparr>docs_db_directory = ''db'', docs_db_collection = ''docs''\<rparr>
     [\<lparr>page_content = ''new text'', metadata = [(''source'', SStr ''doc.html'')]\<rparr>] True IGNORE
     \<lparr>persisted = Some [''docs'' \<mapsto> [(''id1'',
          (\<lparr>page_content = ''old text'', metadata = [(''source'', SStr ''doc.html'')]\<rparr>, 8::nat))]],
      calls = []\<rparr>) = Inr []
   \<and> fst (create_db \<lparr>docs_db_directory = ''db'', docs_db_collection = ''docs''\<rparr> length
       (\<lambda>t. [(t, 0)])
       [\<lparr>page_content = ''new text'', metadata = [(''source'', SStr ''doc.html'')]\<rparr>] True IGNORE
       \<lparr>persisted = Some [''docs'' \<mapsto> [(''id1'',
          (\<lparr>page_content = ''old text'', metadata = [(''source'', SStr ''doc.html'')]\<rparr>, 8::nat))]],
        calls = []\<rparr>) = None
   \<and> the_collection \<lparr>docs_db_directory = ''db'', docs_db_collection = ''docs''\<rparr>
       (snd (create_db \<lparr>docs_db_directory = ''db'', docs_db_collection = ''docs''\<rparr> length
         (\<lambda>t. [(t, 0)])
         [\<lparr>page_content = ''new text'', metadata = [(''source'', SStr ''doc.html'')]\<rparr>] True IGNORE
         \<lparr>persisted = Some [''docs'' \<mapsto> [(''id1'',
            (\<lparr>page_content = ''old text'', metadata = [(''source'', SStr ''doc.html'')]\<rparr>, 8::nat))]],
          calls = []\<rparr>))
     = [(''id1'',
          (\<lparr>page_content = ''old text'', metadata = [(''source'', SStr ''doc.html'')]\<rparr>, 8::nat))]"
proof -
  let ?S = "\<lparr>docs_db_directory = ''db'', docs_db_collection = ''docs''\<rparr>"
  let ?c = "[(''id1'',
          (\<lparr>page_content = ''old text'', metadata = [(''source'', SStr ''doc.html'')]\<rparr>, 8::nat))]"
  let ?w = "\<lparr>persisted = Some [''docs'' \<mapsto> ?c], calls = []\<rparr>"
  let ?docs = "[\<lparr>page_content = ''new text'', metadata = [(''source'', SStr ''doc.html'')]\<rparr>]"
  have c: "the_collection ?S ?w = ?c"
    by (simp add: the_collection_def collections_def)
  have h: "fst (prepare_batch ?S ?docs True IGNORE ?w) = Inr []"
    by (simp add: prepare_batch_def check_exist_ok_def get_chromadb_def log_call_def
        set_collection_def the_collection_def collections_def indexed_doc_filepaths_def
        entry_metadatas_def source_of_def on_match_step_def Let_def)
  note r = create_db_empty_batch [OF h, of length "\<lambda>t. [(t, 0)]"]
  from r have r1: "fst (create_db ?S length (\<lambda>t. [(t, 0)]) ?docs True IGNORE ?w) = None"
    by (simp only: fst_conv)
  from r have r2: "the_collection ?S (snd (create_db ?S length (\<lambda>t. [(t, 0)]) ?docs True IGNORE ?w))
      = the_collection ?S ?w"
    by blast
  show ?thesis using h r1 r2 c by (simp only: simp_thms)
qed

subsection \<open>Writes to the collection\<close>

lemma map_of_dict_set: "map_of (dict_set k v c) = (map_of c)(k \<mapsto> v)"
  by (induction c) (auto simp: fun_eq_iff)













lemma source_of_chunk:
  "c \<in> set (split_document split_text d) \<Longrightarrow> source_of (metadata c) = source_of (metadata d)"
  by (auto simp: split_document_def source_of_def map_of_dict_set)

lemma doc_source_chunk:
  "c \<in> set (split_document split_text d) \<Longrightarrow> doc_source c = doc_source d"
  by (simp add: doc_source_def source_of_chunk)











subsection \<open>The policy REPLACE\<close>













subsection \<open>The policy IGNORE\<close>





















end
